theory Spec2Isabelle
  imports Main "HOL-Library.AList"
begin

section \<open>Data model of PRGPATH.py\<close>

text \<open>
  The program keeps four JSON documents: \<open>data\<close> (users, referrals, count),
  \<open>tasks\<close>, \<open>withdrawals\<close> and \<open>proof_status\<close>. A Python dict is an association list in
  insertion order (the order every \<open>for ... in d.items()\<close> loop sees); Python ints
  are \<open>int\<close>; role and status values are the strings the program stores.
\<close>

record user =
  name :: string
  password :: string
  ref_id :: string
  ref_by :: string
  task_income :: int
  affiliate_income :: int
  joined :: string
  role :: string

record directory =
  users :: "(string \<times> user) list"
  referrals :: "(string \<times> string list) list"
  count :: int

record task =
  title :: string
  description :: string
  payout :: int
  created_by :: string
  created_date :: string

record proof_entry =
  task_title :: string
  task_payout :: int
  member_username :: string
  proof_file :: string
  status :: string
  submitted_date :: string
  coadmin_username :: string
  approved_by_admin :: bool

record withdrawal =
  request_id :: string
  w_username :: string
  w_name :: string
  upi :: string
  amount :: int
  w_date :: string
  w_status :: string

record store =
  data :: directory
  tasks :: "task list"
  withdrawals :: "withdrawal list"
  proof_status :: "(string \<times> proof_entry) list"

section \<open>Utility functions\<close>

text \<open>Decimal text of an integer, as an f-string prints it.\<close>

definition digit_char :: "nat \<Rightarrow> char" where
  "digit_char n = ''0123456789'' ! n"

function str_nat :: "nat \<Rightarrow> string" where
  "str_nat n = (if n < 10 then [digit_char n] else str_nat (n div 10) @ [digit_char (n mod 10)])"
  by pat_completeness auto
termination
  by (relation "measure id") auto

declare str_nat.simps [simp del]

definition str_int :: "int \<Rightarrow> string" where
  "str_int i = (if i < 0 then CHR ''-'' # str_nat (nat (- i)) else str_nat (nat i))"

text \<open>\<open>generate_ref_id(count)\<close>: \<open>f"PRG{1000 + count}"\<close>.\<close>

definition generate_ref_id :: "int \<Rightarrow> string" where
  "generate_ref_id c = ''PRG'' @ str_int (1000 + c)"

text \<open>
  The scan \<open>for u_key, u_info in data["users"].items(): if u_info["ref_id"] == r: ...; break\<close>
  that the program repeats wherever it resolves a ref_id: the first entry, in dict order,
  whose ref_id is \<open>r\<close>.
\<close>

definition scan_ref_id :: "string \<Rightarrow> (string \<times> user) list \<Rightarrow> (string \<times> user) option" where
  "scan_ref_id r us = find (\<lambda>(k, u). ref_id u = r) us"

text \<open>
  The scan followed by the test \<open>if found_referrer_username:\<close>. The test is Python
  truthiness of the username found, so an entry whose key is the empty string counts as
  not found. Since dict keys are unique, \<open>data["users"][found]\<close> is the entry the scan
  stopped at.
\<close>

definition find_user_by_ref_id :: "string \<Rightarrow> (string \<times> user) list \<Rightarrow> (string \<times> user) option" where
  "find_user_by_ref_id r us =
     (case scan_ref_id r us of
        None \<Rightarrow> None
      | Some (k, u) \<Rightarrow> if k = [] then None else Some (k, u))"

text \<open>\<open>find_referrer_ref_id(current_ref_id, data)\<close>.\<close>

definition find_referrer_ref_id :: "string \<Rightarrow> (string \<times> user) list \<Rightarrow> string option" where
  "find_referrer_ref_id r us = map_option (\<lambda>(k, u). ref_by u) (scan_ref_id r us)"

text \<open>
  \<open>find_coadmin_for_member\<close>. The \<open>while current_ref_by_id != "ROOT"\<close> loop has no
  bound, so it is a partial function: \<open>None\<close> is "does not return".
\<close>

partial_function (option) coadmin_walk :: "(string \<times> user) list \<Rightarrow> string \<Rightarrow> string option" where
  "coadmin_walk us cur =
     (if cur = ''ROOT'' then Some ''UNKNOWN''
      else (case find_user_by_ref_id cur us of
              None \<Rightarrow> Some ''UNKNOWN''
            | Some (k, u) \<Rightarrow>
                if role u = ''coadmin'' then Some k else coadmin_walk us (ref_by u)))"

definition find_coadmin_for_member :: "string \<Rightarrow> directory \<Rightarrow> string option" where
  "find_coadmin_for_member m d =
     (case map_of (users d) m of
        None \<Rightarrow> Some ''UNKNOWN''
      | Some u \<Rightarrow> coadmin_walk (users d) (ref_by u))"

section \<open>Registration\<close>

text \<open>The three refusals of \<open>register_user\<close>, and the KeyError of
  \<open>data["referrals"][referral_id]\<close> when the referral id is PRG1001 and the referrals
  dict has no such key (nothing is saved then).\<close>

datatype reg_error = UsernameExists | InvalidReferral | RootForbidden | ReferralKeyError

text \<open>\<open>if explicit_role:\<close> is true for a non-empty string only.\<close>

definition determine_role :: "string \<Rightarrow> string option \<Rightarrow> (string \<times> user) list \<Rightarrow> string" where
  "determine_role referral_id explicit_role us =
     (if explicit_role \<noteq> None \<and> explicit_role \<noteq> Some [] then the explicit_role
      else if referral_id = ''PRG1001'' then ''coadmin''
      else (case find_user_by_ref_id referral_id us of
              None \<Rightarrow> ''member''
            | Some (k, u) \<Rightarrow> if role u = ''coadmin'' then ''member'' else ''member''))"

definition level_payouts :: "int list" where
  "level_payouts = [20, 20, 20, 25, 30, 35, 40, 60]"

definition credit_affiliate :: "string \<Rightarrow> int \<Rightarrow> (string \<times> user) list \<Rightarrow> (string \<times> user) list" where
  "credit_affiliate k p us =
     AList.map_entry k (\<lambda>u. u\<lparr>affiliate_income := affiliate_income u + p\<rparr>) us"

text \<open>
  The loop \<open>for level in range(8)\<close> reads \<open>level_payouts[level]\<close>, so it is a recursion
  over the payouts still to hand out.
\<close>

fun affiliate_loop :: "int list \<Rightarrow> (string \<times> user) list \<Rightarrow> string \<Rightarrow> (string \<times> user) list" where
  "affiliate_loop [] us cur = us"
| "affiliate_loop (p # ps) us cur =
     (case find_user_by_ref_id cur us of
        None \<Rightarrow> us
      | Some (k, u) \<Rightarrow>
          (let us' = credit_affiliate k p us in
           (case find_referrer_ref_id cur us' of
              None \<Rightarrow> us'
            | Some nxt \<Rightarrow> if nxt = ''ROOT'' then us' else affiliate_loop ps us' nxt)))"

definition new_user :: "string \<Rightarrow> string \<Rightarrow> string \<Rightarrow> string \<Rightarrow> string \<Rightarrow> string \<Rightarrow> user" where
  "new_user nm pw rid referral_id today rl =
     \<lparr>name = nm, password = pw, ref_id = rid, ref_by = referral_id, task_income = 0,
      affiliate_income = 0, joined = today, role = rl\<rparr>"

text \<open>\<open>d.setdefault(k, [])\<close>.\<close>

definition setdefault :: "string \<Rightarrow> (string \<times> string list) list \<Rightarrow> (string \<times> string list) list" where
  "setdefault k refs = (if k \<in> fst ` set refs then refs else refs @ [(k, [])])"

text \<open>
  \<open>register_user(name, username, password, referral_id, explicit_role)\<close>; \<open>today\<close> is
  the date the clock gives. On success the result is the directory that is saved, with
  the ref_id and the role that the returned message reports.
\<close>

definition register_user ::
  "string \<Rightarrow> string \<Rightarrow> string \<Rightarrow> string \<Rightarrow> string option \<Rightarrow> string \<Rightarrow> directory
     \<Rightarrow> reg_error + (directory \<times> string \<times> string)" where
  "register_user nm username pw referral_id explicit_role today d =
     (if username \<in> fst ` set (users d) then Inl UsernameExists
      else if referral_id \<notin> fst ` set (referrals d) \<and> referral_id \<noteq> ''PRG1001''
        then Inl InvalidReferral
      else if referral_id = ''ROOT'' \<and> username \<noteq> ''admin'' then Inl RootForbidden
      else
        (let rl = determine_role referral_id explicit_role (users d);
             rid = generate_ref_id (count d);
             us1 = AList.update username (new_user nm pw rid referral_id today rl) (users d);
             refs1 = setdefault rid (referrals d)
         in (case map_of refs1 referral_id of
               None \<Rightarrow> Inl ReferralKeyError
             | Some ch \<Rightarrow>
                 (let refs2 = AList.update referral_id (ch @ [rid]) refs1;
                      us2 = (if rl = ''member'' then affiliate_loop level_payouts us1 referral_id
                             else us1)
                  in Inr (\<lparr>users = us2, referrals = refs2, count = count d + 1\<rparr>, rid, rl)))))"

text \<open>The directory the program creates when \<open>data.json\<close> does not exist.\<close>

definition initial_data :: "string \<Rightarrow> directory" where
  "initial_data today =
     \<lparr>users = [(''admin'', \<lparr>name = ''Admin'', password = ''admin123'', ref_id = ''PRG1001'',
                 ref_by = ''ROOT'', task_income = 0, affiliate_income = 0, joined = today,
                 role = ''admin''\<rparr>)],
      referrals = [(''PRG1001'', [])],
      count = 1\<rparr>"

section \<open>Pages of the dashboard\<close>

text \<open>
  Each page action is a function of the stored documents. A page offers a button only
  for the records its filter selects; a request for any other record is \<open>NotOffered\<close>.
  Every error leaves the documents as they were, since nothing is saved.
\<close>

datatype ui_error =
  NotOffered | AlreadySubmitted | UploadFailed | MemberNotFound | AlreadyReviewed
  | NoBalance | NoUpi

subsection \<open>My Members: delete\<close>

text \<open>
  The coadmin with ref_id \<open>own_ref_id\<close> confirms the deletion of one of the entries of
  \<open>my_direct_members\<close>. \<open>list.remove\<close> drops the first occurrence.
\<close>

definition delete_member :: "string \<Rightarrow> string \<Rightarrow> directory \<Rightarrow> ui_error + directory" where
  "delete_member own_ref_id member d =
     (case map_of (users d) member of
        None \<Rightarrow> Inl NotOffered
      | Some info \<Rightarrow>
          if ref_by info = own_ref_id \<and> role info = ''member'' then
            (let refs1 = AList.delete (ref_id info) (referrals d);
                 refs2 = (case map_of refs1 own_ref_id of
                            None \<Rightarrow> refs1
                          | Some ch \<Rightarrow>
                              if ref_id info \<in> set ch
                              then AList.update own_ref_id (remove1 (ref_id info) ch) refs1
                              else refs1)
             in Inr (d\<lparr>users := AList.delete member (users d), referrals := refs2\<rparr>))
          else Inl NotOffered)"

subsection \<open>Tasks: proof submission\<close>

definition proof_exists_for_task :: "string \<Rightarrow> string \<Rightarrow> (string \<times> proof_entry) list \<Rightarrow> bool" where
  "proof_exists_for_task username ttl ps =
     (\<exists>(pk, pv) \<in> set ps. member_username pv = username \<and> task_title pv = ttl)"

text \<open>\<open>s.replace(' ', '_')\<close>.\<close>

definition underscored :: "string \<Rightarrow> string" where
  "underscored s = map (\<lambda>c. if c = CHR '' '' then CHR ''_'' else c) s"

text \<open>
  The member \<open>username\<close> uploads a file for the \<open>i\<close>-th task. \<open>now\<close> and \<open>today\<close> are
  the clock's timestamp and date, \<open>ext\<close> the lower-cased extension of the upload, and
  \<open>write_ok\<close> says whether writing the file succeeded. The result is \<open>None\<close> when the
  coadmin walk does not return.
\<close>

definition submit_proof ::
  "string \<Rightarrow> nat \<Rightarrow> string \<Rightarrow> string \<Rightarrow> string \<Rightarrow> bool \<Rightarrow> store \<Rightarrow> (ui_error + store) option" where
  "submit_proof username i now today ext write_ok st =
     (if i \<ge> length (tasks st) then Some (Inl NotOffered)
      else
        (let t = tasks st ! i in
         if proof_exists_for_task username (title t) (proof_status st)
         then Some (Inl AlreadySubmitted)
         else
           (let unique_key_for_proof = username @ ''_'' @ underscored (title t) @ ''_'' @ now;
                fname = ''proofs/'' @ unique_key_for_proof @ ext
            in if \<not> write_ok then Some (Inl UploadFailed)
               else (case find_coadmin_for_member username (data st) of
                       None \<Rightarrow> None
                     | Some responsible \<Rightarrow>
                         Some (Inr (st\<lparr>proof_status :=
                           AList.update unique_key_for_proof
                             \<lparr>task_title = title t, task_payout = payout t,
                              member_username = username, proof_file = fname,
                              status = ''Pending'', submitted_date = today,
                              coadmin_username = responsible, approved_by_admin = False\<rparr>
                             (proof_status st)\<rparr>))))))"

subsection \<open>Coadmin: Approve Proofs\<close>

definition pending_for_coadmin :: "string \<Rightarrow> proof_entry \<Rightarrow> bool" where
  "pending_for_coadmin coadmin v \<longleftrightarrow> status v = ''Pending'' \<and> coadmin_username v = coadmin"

definition set_status :: "string \<Rightarrow> string \<Rightarrow> (string \<times> proof_entry) list \<Rightarrow> (string \<times> proof_entry) list" where
  "set_status key s ps = AList.map_entry key (\<lambda>v. v\<lparr>status := s\<rparr>) ps"

definition credit_task :: "string \<Rightarrow> int \<Rightarrow> (string \<times> user) list \<Rightarrow> (string \<times> user) list" where
  "credit_task k p us = AList.map_entry k (\<lambda>u. u\<lparr>task_income := task_income u + p\<rparr>) us"

definition coadmin_approve :: "string \<Rightarrow> string \<Rightarrow> store \<Rightarrow> ui_error + store" where
  "coadmin_approve coadmin key st =
     (case map_of (proof_status st) key of
        None \<Rightarrow> Inl NotOffered
      | Some v \<Rightarrow>
          if \<not> pending_for_coadmin coadmin v then Inl NotOffered
          else if member_username v \<in> fst ` set (users (data st)) then
            Inr (st\<lparr>data := (data st)\<lparr>users :=
                       credit_task (member_username v) (task_payout v) (users (data st))\<rparr>,
                    proof_status := set_status key ''Approved By Coadmin'' (proof_status st)\<rparr>)
          else Inl MemberNotFound)"

definition coadmin_deny :: "string \<Rightarrow> string \<Rightarrow> store \<Rightarrow> ui_error + store" where
  "coadmin_deny coadmin key st =
     (case map_of (proof_status st) key of
        None \<Rightarrow> Inl NotOffered
      | Some v \<Rightarrow>
          if \<not> pending_for_coadmin coadmin v then Inl NotOffered
          else Inr (st\<lparr>proof_status := set_status key ''Denied By Coadmin'' (proof_status st)\<rparr>))"

subsection \<open>Admin: Manage Proofs\<close>

definition admin_confirm :: "string \<Rightarrow> store \<Rightarrow> ui_error + store" where
  "admin_confirm key st =
     (case map_of (proof_status st) key of
        None \<Rightarrow> Inl NotOffered
      | Some v \<Rightarrow>
          if status v \<noteq> ''Approved By Coadmin'' then Inl NotOffered
          else if approved_by_admin v then Inl AlreadyReviewed
          else Inr (st\<lparr>proof_status :=
                 AList.map_entry key
                   (\<lambda>v. v\<lparr>approved_by_admin := True, status := ''Approved By Admin''\<rparr>)
                   (proof_status st)\<rparr>))"

subsection \<open>Withdrawals\<close>

definition balance_of :: "string \<Rightarrow> directory \<Rightarrow> int" where
  "balance_of username d =
     (case map_of (users d) username of
        None \<Rightarrow> 0
      | Some u \<Rightarrow> affiliate_income u + task_income u)"

text \<open>
  The user \<open>username\<close>, whose session holds the display name \<open>nm\<close>, submits the
  withdrawal form with the UPI id \<open>u\<close>.
\<close>

definition request_withdrawal ::
  "string \<Rightarrow> string \<Rightarrow> string \<Rightarrow> string \<Rightarrow> string \<Rightarrow> store \<Rightarrow> ui_error + store" where
  "request_withdrawal username nm u now today st =
     (let total_withdrawable_amount = balance_of username (data st) in
      if total_withdrawable_amount \<le> 0 then Inl NoBalance
      else if u = [] then Inl NoUpi
      else Inr (st\<lparr>
        withdrawals := withdrawals st @
          [\<lparr>request_id = ''WDR'' @ str_int (int (length (withdrawals st)) + 1) @ ''-'' @ now,
            w_username = username, w_name = nm, upi = u,
            amount = total_withdrawable_amount, w_date = today, w_status = ''Pending''\<rparr>],
        data := (data st)\<lparr>users :=
          AList.map_entry username (\<lambda>x. x\<lparr>affiliate_income := 0, task_income := 0\<rparr>)
            (users (data st))\<rparr>\<rparr>))"

subsection \<open>Manage Withdrawals\<close>

datatype outcome = Paid | Cancelled

fun outcome_status :: "outcome \<Rightarrow> string" where
  "outcome_status Paid = ''Paid''"
| "outcome_status Cancelled = ''Cancelled''"

text \<open>
  \<open>for w in withdrawals: if w["request_id"] == rid: w["status"] = s; break\<close>.
\<close>

fun mark_first :: "string \<Rightarrow> string \<Rightarrow> withdrawal list \<Rightarrow> withdrawal list" where
  "mark_first rid s [] = []"
| "mark_first rid s (w # ws) =
     (if request_id w = rid then w\<lparr>w_status := s\<rparr> # ws else w # mark_first rid s ws)"

definition pending_withdrawals :: "withdrawal list \<Rightarrow> withdrawal list" where
  "pending_withdrawals ws = filter (\<lambda>w. w_status w = ''Pending'') ws"

text \<open>The admin presses "Mark as Paid" or "Cancel Request" on the \<open>i\<close>-th pending request.\<close>

definition settle :: "outcome \<Rightarrow> nat \<Rightarrow> store \<Rightarrow> ui_error + store" where
  "settle out i st =
     (if i \<ge> length (pending_withdrawals (withdrawals st)) then Inl NotOffered
      else
        (let req = pending_withdrawals (withdrawals st) ! i
         in Inr (st\<lparr>withdrawals :=
                  mark_first (request_id req) (outcome_status out) (withdrawals st)\<rparr>)))"

section \<open>Notions of the specification\<close>

text \<open>
  The users met by walking \<open>ref_by\<close> pointers upward from the ref_id \<open>cur\<close>, nearest
  first, at most \<open>n\<close> of them: the walk ends at \<open>ROOT\<close> and at a ref_id that no user
  owns.
\<close>

fun ancestors :: "nat \<Rightarrow> (string \<times> user) list \<Rightarrow> string \<Rightarrow> (string \<times> user) list" where
  "ancestors 0 us cur = []"
| "ancestors (Suc n) us cur =
     (if cur = ''ROOT'' then []
      else (case find_user_by_ref_id cur us of
              None \<Rightarrow> []
            | Some (k, u) \<Rightarrow> (k, u) # ancestors n us (ref_by u)))"

text \<open>
  The username of the first coadmin of a chain of ancestors, or the sentinel, which the
  program spells \<open>UNKNOWN\<close>.
\<close>

definition nearest_coadmin :: "(string \<times> user) list \<Rightarrow> string" where
  "nearest_coadmin anc =
     (case find (\<lambda>(k, u). role u = ''coadmin'') anc of
        None \<Rightarrow> ''UNKNOWN''
      | Some (k, u) \<Rightarrow> k)"

text \<open>
  The walk from \<open>cur\<close> meets \<open>ROOT\<close>, an unowned ref_id or a coadmin after following at
  most \<open>n\<close> pointers.
\<close>

fun walk_stops :: "nat \<Rightarrow> (string \<times> user) list \<Rightarrow> string \<Rightarrow> bool" where
  "walk_stops 0 us cur \<longleftrightarrow>
     cur = ''ROOT'' \<or>
     (case find_user_by_ref_id cur us of None \<Rightarrow> True | Some (k, u) \<Rightarrow> role u = ''coadmin'')"
| "walk_stops (Suc n) us cur \<longleftrightarrow>
     cur = ''ROOT'' \<or>
     (case find_user_by_ref_id cur us of
        None \<Rightarrow> True
      | Some (k, u) \<Rightarrow> role u = ''coadmin'' \<or> walk_stops n us (ref_by u))"

text \<open>The role of a new user when no explicit role is in force.\<close>

definition default_role :: "string \<Rightarrow> string" where
  "default_role referral_id = (if referral_id = ''PRG1001'' then ''coadmin'' else ''member'')"



subsection \<open>Invariants of the directory\<close>

text \<open>Every user who is not the admin has a \<open>ref_by\<close> that is the ref_id of some user.\<close>

definition inv_ref_by_resolves :: "directory \<Rightarrow> bool" where
  "inv_ref_by_resolves d \<longleftrightarrow>
     (\<forall>(k, u) \<in> set (users d). role u \<noteq> ''admin'' \<longrightarrow>
        ref_by u \<in> set (map (\<lambda>(k, u). ref_id u) (users d)))"

text \<open>Every user's ref_id is a key of the referral mapping.\<close>

definition inv_ref_id_keys :: "directory \<Rightarrow> bool" where
  "inv_ref_id_keys d \<longleftrightarrow>
     (\<forall>(k, u) \<in> set (users d). ref_id u \<in> fst ` set (referrals d))"

text \<open>Every user who is not the admin appears exactly once among the children of its parent.\<close>

definition inv_child_once :: "directory \<Rightarrow> bool" where
  "inv_child_once d \<longleftrightarrow>
     (\<forall>(k, u) \<in> set (users d). role u \<noteq> ''admin'' \<longrightarrow>
        (case map_of (referrals d) (ref_by u) of
           None \<Rightarrow> False
         | Some ch \<Rightarrow> count_list ch (ref_id u) = 1))"

text \<open>The ref_ids reached from \<open>r\<close> by one to \<open>n\<close> steps from a node to one of its children.\<close>

fun descendants :: "nat \<Rightarrow> (string \<times> string list) list \<Rightarrow> string \<Rightarrow> string list" where
  "descendants 0 refs r = []"
| "descendants (Suc n) refs r =
     (case map_of refs r of
        None \<Rightarrow> []
      | Some ch \<Rightarrow> ch @ concat (map (descendants n refs) ch))"

text \<open>
  No ref_id is its own descendant. A cycle through a key has at most as many steps as
  there are keys, so this depth suffices.
\<close>

definition inv_acyclic :: "directory \<Rightarrow> bool" where
  "inv_acyclic d \<longleftrightarrow>
     (\<forall>r \<in> fst ` set (referrals d).
        r \<notin> set (descendants (length (referrals d)) (referrals d) r))"

text \<open>Every key of the referral mapping is the admin's ref_id or one of its descendants.\<close>

definition inv_rooted :: "directory \<Rightarrow> bool" where
  "inv_rooted d \<longleftrightarrow>
     (case map_of (users d) ''admin'' of
        None \<Rightarrow> False
      | Some a \<Rightarrow>
          (\<forall>r \<in> fst ` set (referrals d).
             r = ref_id a \<or>
             r \<in> set (descendants (length (referrals d)) (referrals d) (ref_id a))))"

definition directory_inv :: "directory \<Rightarrow> bool" where
  "directory_inv d \<longleftrightarrow>
     inv_ref_by_resolves d \<and> inv_ref_id_keys d \<and> inv_child_once d \<and> inv_acyclic d \<and>
     inv_rooted d"

text \<open>What the invariants read of the users: key, ref_id, \<open>ref_by\<close> and role.\<close>

definition links :: "(string \<times> user) list \<Rightarrow> (string \<times> string \<times> string \<times> string) list" where
  "links us = map (\<lambda>(k, u). (k, ref_id u, ref_by u, role u)) us"

section \<open>Example states\<close>

definition admin_user :: user where
  "admin_user = \<lparr>name = ''Admin'', password = ''admin123'', ref_id = ''PRG1001'',
     ref_by = ''ROOT'', task_income = 0, affiliate_income = 0, joined = ''2025-01-01'',
     role = ''admin''\<rparr>"

definition carol_user :: user where
  "carol_user = \<lparr>name = ''Carol'', password = ''c1'', ref_id = ''PRG1002'',
     ref_by = ''PRG1001'', task_income = 0, affiliate_income = 40, joined = ''2025-01-02'',
     role = ''coadmin''\<rparr>"

definition mia_user :: user where
  "mia_user = \<lparr>name = ''Mia'', password = ''m1'', ref_id = ''PRG1003'',
     ref_by = ''PRG1002'', task_income = 30, affiliate_income = 20, joined = ''2025-01-03'',
     role = ''member''\<rparr>"

definition noor_user :: user where
  "noor_user = \<lparr>name = ''Noor'', password = ''n1'', ref_id = ''PRG1004'',
     ref_by = ''PRG1003'', task_income = 0, affiliate_income = 0, joined = ''2025-01-04'',
     role = ''member''\<rparr>"

definition example_data :: directory where
  "example_data =
     \<lparr>users = [(''admin'', admin_user), (''carol'', carol_user), (''mia'', mia_user),
               (''noor'', noor_user)],
      referrals = [(''PRG1001'', [''PRG1002'']), (''PRG1002'', [''PRG1003'']),
                   (''PRG1003'', [''PRG1004'']), (''PRG1004'', [])],
      count = 5\<rparr>"

definition example_proof :: proof_entry where
  "example_proof = \<lparr>task_title = ''Survey one'', task_payout = 100, member_username = ''mia'',
     proof_file = ''proofs/mia_Survey_one_20250105090000.png'', status = ''Pending'',
     submitted_date = ''2025-01-05'', coadmin_username = ''carol'',
     approved_by_admin = False\<rparr>"

definition example_withdrawal :: withdrawal where
  "example_withdrawal = \<lparr>request_id = ''WDR1-20250104100000'', w_username = ''carol'',
     w_name = ''Carol'', upi = ''carol@upi'', amount = 20, w_date = ''2025-01-04'',
     w_status = ''Pending''\<rparr>"

definition example_store :: store where
  "example_store =
     \<lparr>data = example_data,
      tasks = [\<lparr>title = ''Survey one'', description = ''Fill in the survey'', payout = 100,
                created_by = ''carol'', created_date = ''2025-01-03''\<rparr>],
      withdrawals = [example_withdrawal],
      proof_status = [(''mia_Survey_one_20250105090000'', example_proof)]\<rparr>"

text \<open>The example directory after Eve has registered under Mia's ref_id.\<close>

definition eve_user :: user where
  "eve_user = \<lparr>name = ''Eve'', password = ''e1'', ref_id = ''PRG1005'',
     ref_by = ''PRG1003'', task_income = 0, affiliate_income = 0, joined = ''2025-01-08'',
     role = ''member''\<rparr>"

definition example_data_with_eve :: directory where
  "example_data_with_eve =
     \<lparr>users = [(''admin'', admin_user\<lparr>affiliate_income := 20\<rparr>),
               (''carol'', carol_user\<lparr>affiliate_income := 60\<rparr>),
               (''mia'', mia_user\<lparr>affiliate_income := 40\<rparr>),
               (''noor'', noor_user), (''eve'', eve_user)],
      referrals = [(''PRG1001'', [''PRG1002'']), (''PRG1002'', [''PRG1003'']),
                   (''PRG1003'', [''PRG1004'', ''PRG1005'']), (''PRG1004'', []),
                   (''PRG1005'', [])],
      count = 6\<rparr>"

text \<open>The initial directory after a first registration, of Carol under the admin's ref_id.\<close>

definition first_registration_data :: directory where
  "first_registration_data =
     \<lparr>users = [(''admin'', admin_user),
               (''carol'', \<lparr>name = ''Carol'', password = ''c1'', ref_id = ''PRG1001'',
                  ref_by = ''PRG1001'', task_income = 0, affiliate_income = 0,
                  joined = ''2025-01-02'', role = ''coadmin''\<rparr>)],
      referrals = [(''PRG1001'', [''PRG1001''])],
      count = 2\<rparr>"

text \<open>The example directory after Carol has deleted her member Mia.\<close>

definition example_data_without_mia :: directory where
  "example_data_without_mia =
     \<lparr>users = [(''admin'', admin_user), (''carol'', carol_user), (''noor'', noor_user)],
      referrals = [(''PRG1001'', [''PRG1002'']), (''PRG1002'', []), (''PRG1004'', [])],
      count = 5\<rparr>"

text \<open>A ledger with two pending requests and a paid one between them.\<close>

definition second_withdrawal :: withdrawal where
  "second_withdrawal = \<lparr>request_id = ''WDR2-20250105100000'', w_username = ''mia'',
     w_name = ''Mia'', upi = ''mia@upi'', amount = 35, w_date = ''2025-01-05'',
     w_status = ''Paid''\<rparr>"

definition third_withdrawal :: withdrawal where
  "third_withdrawal = \<lparr>request_id = ''WDR3-20250106100000'', w_username = ''noor'',
     w_name = ''Noor'', upi = ''noor@upi'', amount = 60, w_date = ''2025-01-06'',
     w_status = ''Pending''\<rparr>"

definition ledger_store :: store where
  "ledger_store =
     example_store\<lparr>withdrawals := [example_withdrawal, second_withdrawal, third_withdrawal]\<rparr>"





section \<open>Facts about dict updates\<close>

lemmas example_defs = example_store_def example_data_def admin_user_def carol_user_def
  mia_user_def noor_user_def example_proof_def example_withdrawal_def

lemma map_of_map_entry_same:
  "map_of (AList.map_entry k f xs) k = map_option f (map_of xs k)"
  by (simp add: map_of_map_entry split: option.splits)

lemma map_of_map_entry_other:
  "k' \<noteq> k \<Longrightarrow> map_of (AList.map_entry k f xs) k' = map_of xs k'"
  by (simp add: map_of_map_entry)


section \<open>The example states\<close>

lemmas inv_defs = directory_inv_def inv_ref_by_resolves_def inv_ref_id_keys_def
  inv_child_once_def inv_acyclic_def inv_rooted_def

lemma generate_ref_id_1: "generate_ref_id 1 = ''PRG1001''"
  by code_simp

lemma generate_ref_id_5: "generate_ref_id 5 = ''PRG1005''"
  by code_simp

lemma register_eve:
  "register_user ''Eve'' ''eve'' ''e1'' ''PRG1003'' None ''2025-01-08'' example_data
     = Inr (example_data_with_eve, ''PRG1005'', ''member'')"
  by (simp add: register_user_def Let_def determine_role_def setdefault_def new_user_def
      generate_ref_id_5 level_payouts_def credit_affiliate_def find_referrer_ref_id_def
      find_user_by_ref_id_def scan_ref_id_def example_data_with_eve_def eve_user_def
      example_defs)



lemma first_registration:
  "register_user ''Carol'' ''carol'' ''c1'' ''PRG1001'' None ''2025-01-02''
     (initial_data ''2025-01-01'') = Inr (first_registration_data, ''PRG1001'', ''coadmin'')"
  by (simp add: register_user_def Let_def determine_role_def setdefault_def new_user_def
      generate_ref_id_1 initial_data_def first_registration_data_def admin_user_def)

section \<open>Withdrawals\<close>

text \<open>
  C8. A withdrawal request of a user whose two incomes sum to zero or less is refused with
  \<open>NoBalance\<close>. A request that succeeds appends one \<open>Pending\<close> record whose amount is the
  sum before the request, sets both incomes of the user to zero and leaves every other
  user alone, so that a repeated request on the new state is refused with \<open>NoBalance\<close>.
\<close>

theorem request_withdrawal_spec:
  "(balance_of username (data st) \<le> 0 \<longrightarrow>
      request_withdrawal username nm u now today st = Inl NoBalance) \<and>
   (request_withdrawal username nm u now today st = Inr st' \<longrightarrow>
      (\<exists>w. withdrawals st' = withdrawals st @ [w] \<and> w_status w = ''Pending'' \<and>
           w_username w = username \<and> amount w = balance_of username (data st)) \<and>
      (\<exists>x. map_of (users (data st')) username = Some x \<and>
           affiliate_income x = 0 \<and> task_income x = 0) \<and>
      (\<forall>k. k \<noteq> username \<longrightarrow> map_of (users (data st')) k = map_of (users (data st)) k) \<and>
      request_withdrawal username nm2 u2 now2 today2 st' = Inl NoBalance)"
proof -
  have refused: "balance_of username (data st) \<le> 0 \<longrightarrow>
      request_withdrawal username nm u now today st = Inl NoBalance"
    by (simp add: request_withdrawal_def)
  have granted: "request_withdrawal username nm u now today st = Inr st' \<longrightarrow>
      (\<exists>w. withdrawals st' = withdrawals st @ [w] \<and> w_status w = ''Pending'' \<and>
           w_username w = username \<and> amount w = balance_of username (data st)) \<and>
      (\<exists>x. map_of (users (data st')) username = Some x \<and>
           affiliate_income x = 0 \<and> task_income x = 0) \<and>
      (\<forall>k. k \<noteq> username \<longrightarrow> map_of (users (data st')) k = map_of (users (data st)) k) \<and>
      request_withdrawal username nm2 u2 now2 today2 st' = Inl NoBalance"
  proof
    assume r: "request_withdrawal username nm u now today st = Inr st'"
    then have pos: "0 < balance_of username (data st)" and "u \<noteq> []"
      by (auto simp: request_withdrawal_def Let_def split: if_splits)
    from pos obtain x where x: "map_of (users (data st)) username = Some x"
      by (auto simp: balance_of_def split: option.splits)
    from r pos \<open>u \<noteq> []\<close> have st': "st' = st\<lparr>
        withdrawals := withdrawals st @
          [\<lparr>request_id = ''WDR'' @ str_int (int (length (withdrawals st)) + 1) @ ''-'' @ now,
            w_username = username, w_name = nm, upi = u,
            amount = balance_of username (data st), w_date = today, w_status = ''Pending''\<rparr>],
        data := (data st)\<lparr>users :=
          AList.map_entry username (\<lambda>x. x\<lparr>affiliate_income := 0, task_income := 0\<rparr>)
            (users (data st))\<rparr>\<rparr>"
      by (auto simp: request_withdrawal_def Let_def split: if_splits)
    have bal: "balance_of username (data st') = 0"
      by (simp add: st' balance_of_def map_of_map_entry_same x)
    show "(\<exists>w. withdrawals st' = withdrawals st @ [w] \<and> w_status w = ''Pending'' \<and>
           w_username w = username \<and> amount w = balance_of username (data st)) \<and>
      (\<exists>x. map_of (users (data st')) username = Some x \<and>
           affiliate_income x = 0 \<and> task_income x = 0) \<and>
      (\<forall>k. k \<noteq> username \<longrightarrow> map_of (users (data st')) k = map_of (users (data st)) k) \<and>
      request_withdrawal username nm2 u2 now2 today2 st' = Inl NoBalance"
      using bal
      by (simp add: st' map_of_map_entry_same map_of_map_entry_other x request_withdrawal_def)
  qed
  from refused granted show ?thesis by blast
qed

text \<open>
  Noor has no income and is refused; Mia has 20 + 30 and is granted a request of 50,
  after which she is refused.
\<close>

theorem request_withdrawal_spec_witness:
  "balance_of ''noor'' (data example_store) \<le> 0 \<and>
   request_withdrawal ''noor'' ''Noor'' ''noor@upi'' ''20250106120000'' ''2025-01-06''
     example_store = Inl NoBalance \<and>
   request_withdrawal ''mia'' ''Mia'' ''mia@upi'' ''20250106120000'' ''2025-01-06''
     example_store =
     Inr (example_store\<lparr>
       withdrawals := [example_withdrawal,
         \<lparr>request_id = ''WDR2-20250106120000'', w_username = ''mia'', w_name = ''Mia'',
          upi = ''mia@upi'', amount = 50, w_date = ''2025-01-06'', w_status = ''Pending''\<rparr>],
       data := example_data\<lparr>users := [(''admin'', admin_user), (''carol'', carol_user),
         (''mia'', mia_user\<lparr>affiliate_income := 0, task_income := 0\<rparr>),
         (''noor'', noor_user)]\<rparr>\<rparr>) \<and>
   request_withdrawal ''mia'' ''Mia'' ''mia@upi'' ''20250106120001'' ''2025-01-06''
     (example_store\<lparr>
       withdrawals := [example_withdrawal,
         \<lparr>request_id = ''WDR2-20250106120000'', w_username = ''mia'', w_name = ''Mia'',
          upi = ''mia@upi'', amount = 50, w_date = ''2025-01-06'', w_status = ''Pending''\<rparr>],
       data := example_data\<lparr>users := [(''admin'', admin_user), (''carol'', carol_user),
         (''mia'', mia_user\<lparr>affiliate_income := 0, task_income := 0\<rparr>),
         (''noor'', noor_user)]\<rparr>\<rparr>) = Inl NoBalance"
proof -
  have two: "str_int 2 = ''2''"
    by code_simp
  have noor: "balance_of ''noor'' (data example_store) \<le> 0"
    by (simp add: balance_of_def example_defs)
  have mia: "request_withdrawal ''mia'' ''Mia'' ''mia@upi'' ''20250106120000'' ''2025-01-06''
     example_store =
     Inr (example_store\<lparr>
       withdrawals := [example_withdrawal,
         \<lparr>request_id = ''WDR2-20250106120000'', w_username = ''mia'', w_name = ''Mia'',
          upi = ''mia@upi'', amount = 50, w_date = ''2025-01-06'', w_status = ''Pending''\<rparr>],
       data := example_data\<lparr>users := [(''admin'', admin_user), (''carol'', carol_user),
         (''mia'', mia_user\<lparr>affiliate_income := 0, task_income := 0\<rparr>),
         (''noor'', noor_user)]\<rparr>\<rparr>)"
    by (simp add: request_withdrawal_def balance_of_def Let_def two example_store_def
        example_data_def mia_user_def)
  from noor mia
    request_withdrawal_spec [of "''noor''" example_store "''Noor''" "''noor@upi''"
      "''20250106120000''" "''2025-01-06''"]
    request_withdrawal_spec [of "''mia''" example_store "''Mia''" "''mia@upi''"
      "''20250106120000''" "''2025-01-06''" _ "''Mia''" "''mia@upi''" "''20250106120001''"
      "''2025-01-06''"]
  show ?thesis by simp
qed

section \<open>Proof submission\<close>

text \<open>
  C9. When the stored submissions hold a record of the same member for the title of the
  chosen task, whatever the status of that record, the submission is refused with
  \<open>AlreadySubmitted\<close>; the refusal writes nothing.
\<close>

theorem submit_proof_already_submitted:
  "i < length (tasks st) \<Longrightarrow> (pk, pv) \<in> set (proof_status st) \<Longrightarrow>
   member_username pv = username \<Longrightarrow> task_title pv = title (tasks st ! i) \<Longrightarrow>
   submit_proof username i now today ext write_ok st = Some (Inl AlreadySubmitted)"
  by (auto simp: submit_proof_def Let_def proof_exists_for_task_def)

text \<open>Mia's earlier submission for the task has been denied; she still cannot submit again.\<close>

theorem submit_proof_already_submitted_witness:
  "(0::nat) < length (tasks (example_store\<lparr>proof_status :=
       [(''mia_Survey_one_20250105090000'', example_proof\<lparr>status := ''Denied By Coadmin''\<rparr>)]\<rparr>)) \<and>
   submit_proof ''mia'' 0 ''20250107080000'' ''2025-01-07'' ''.png'' True
     (example_store\<lparr>proof_status :=
       [(''mia_Survey_one_20250105090000'', example_proof\<lparr>status := ''Denied By Coadmin''\<rparr>)]\<rparr>)
     = Some (Inl AlreadySubmitted)"
  using submit_proof_already_submitted [of 0
      "example_store\<lparr>proof_status :=
         [(''mia_Survey_one_20250105090000'', example_proof\<lparr>status := ''Denied By Coadmin''\<rparr>)]\<rparr>"
      "''mia_Survey_one_20250105090000''" "example_proof\<lparr>status := ''Denied By Coadmin''\<rparr>"
      "''mia''" "''20250107080000''" "''2025-01-07''" "''.png''" True]
  by (simp add: example_store_def example_proof_def)

section \<open>Settling withdrawals\<close>

lemma mark_first_distinct:
  "distinct (map request_id ws) \<Longrightarrow> j < length ws \<Longrightarrow>
   mark_first (request_id (ws ! j)) s ws = ws[j := (ws ! j)\<lparr>w_status := s\<rparr>]"
proof (induction ws arbitrary: j)
  case Nil
  then show ?case by simp
next
  case (Cons w ws)
  show ?case
  proof (cases j)
    case 0
    then show ?thesis by simp
  next
    case (Suc j')
    with Cons.prems have "j' < length ws" by simp
    then have "ws ! j' \<in> set ws" by simp
    with Cons.prems have "request_id w \<noteq> request_id (ws ! j')" by auto
    with Cons Suc \<open>j' < length ws\<close> show ?thesis by simp
  qed
qed

text \<open>
  C10. With request ids that are unique, a settlement succeeds exactly when the request
  pressed is one of the \<open>Pending\<close> ones. It then rewrites the status of that request,
  and of no other, to \<open>Paid\<close> for the outcome paid and to \<open>Cancelled\<close> for the outcome
  cancelled, and changes nothing else: the directory, hence every income of every
  user, is as before, for a cancellation too.
\<close>

theorem settle_only_pending:
  assumes "distinct (map request_id (withdrawals st))"
  shows "(settle out i st = Inr st' \<longrightarrow>
            data st' = data st \<and> proof_status st' = proof_status st \<and> tasks st' = tasks st \<and>
            (\<exists>j < length (withdrawals st).
               withdrawals st ! j = filter (\<lambda>w. w_status w = ''Pending'') (withdrawals st) ! i \<and>
               w_status (withdrawals st ! j) = ''Pending'' \<and>
               withdrawals st' =
                 (withdrawals st)[j := (withdrawals st ! j)
                    \<lparr>w_status := (case out of Paid \<Rightarrow> ''Paid'' | Cancelled \<Rightarrow> ''Cancelled'')\<rparr>])) \<and>
         ((\<exists>s. settle out i st = Inr s) \<longleftrightarrow>
            i < length (filter (\<lambda>w. w_status w = ''Pending'') (withdrawals st)))"
proof -
  let ?ws = "withdrawals st"
  let ?p = "filter (\<lambda>w. w_status w = ''Pending'') ?ws"
  have os: "outcome_status out = (case out of Paid \<Rightarrow> ''Paid'' | Cancelled \<Rightarrow> ''Cancelled'')"
    by (cases out) simp_all
  have effect: "settle out i st = Inr st' \<longrightarrow>
            data st' = data st \<and> proof_status st' = proof_status st \<and> tasks st' = tasks st \<and>
            (\<exists>j < length ?ws. ?ws ! j = ?p ! i \<and> w_status (?ws ! j) = ''Pending'' \<and>
               withdrawals st' =
                 ?ws[j := (?ws ! j)
                    \<lparr>w_status := (case out of Paid \<Rightarrow> ''Paid'' | Cancelled \<Rightarrow> ''Cancelled'')\<rparr>])"
  proof
    assume r: "settle out i st = Inr st'"
    then have i: "i < length ?p"
      and st': "st' = st\<lparr>withdrawals := mark_first (request_id (?p ! i)) (outcome_status out) ?ws\<rparr>"
      by (auto simp: settle_def pending_withdrawals_def Let_def split: if_splits)
    from i have "?p ! i \<in> set ?p" by (rule nth_mem)
    then have mem: "?p ! i \<in> set ?ws" and pend: "w_status (?p ! i) = ''Pending''"
      by auto
    from mem obtain j where j: "j < length ?ws" "?ws ! j = ?p ! i"
      by (auto simp: in_set_conv_nth)
    from mark_first_distinct [OF assms j(1), of "outcome_status out"] j pend st' os
    show "data st' = data st \<and> proof_status st' = proof_status st \<and> tasks st' = tasks st \<and>
            (\<exists>j < length ?ws. ?ws ! j = ?p ! i \<and> w_status (?ws ! j) = ''Pending'' \<and>
               withdrawals st' =
                 ?ws[j := (?ws ! j)
                    \<lparr>w_status := (case out of Paid \<Rightarrow> ''Paid'' | Cancelled \<Rightarrow> ''Cancelled'')\<rparr>])"
      by auto
  qed
  have offered: "(\<exists>s. settle out i st = Inr s) \<longleftrightarrow> i < length ?p"
    by (auto simp: settle_def pending_withdrawals_def Let_def)
  from effect offered show ?thesis by blast
qed

text \<open>
  Of the two pending requests the second is marked paid and the first is cancelled,
  each leaving the other and the paid one between them alone; the cancellation leaves
  the directory as it is; there is no third pending request, and the request that has
  been paid can not be settled again.
\<close>

theorem settle_only_pending_witness:
  "distinct (map request_id (withdrawals ledger_store)) \<and>
   settle Paid 1 ledger_store =
     Inr (ledger_store\<lparr>withdrawals :=
            [example_withdrawal, second_withdrawal, third_withdrawal\<lparr>w_status := ''Paid''\<rparr>]\<rparr>) \<and>
   settle Cancelled 0 ledger_store =
     Inr (ledger_store\<lparr>withdrawals :=
            [example_withdrawal\<lparr>w_status := ''Cancelled''\<rparr>, second_withdrawal,
             third_withdrawal]\<rparr>) \<and>
   data (ledger_store\<lparr>withdrawals :=
            [example_withdrawal\<lparr>w_status := ''Cancelled''\<rparr>, second_withdrawal,
             third_withdrawal]\<rparr>) = data ledger_store \<and>
   settle Paid 2 ledger_store = Inl NotOffered \<and>
   settle Paid 1 (ledger_store\<lparr>withdrawals :=
            [example_withdrawal, second_withdrawal, third_withdrawal\<lparr>w_status := ''Paid''\<rparr>]\<rparr>)
     = Inl NotOffered"
proof -
  note defs = ledger_store_def example_store_def example_withdrawal_def second_withdrawal_def
    third_withdrawal_def settle_def pending_withdrawals_def Let_def
  have d: "distinct (map request_id (withdrawals ledger_store))"
    by (simp add: defs)
  have paid: "settle Paid 1 ledger_store =
     Inr (ledger_store\<lparr>withdrawals :=
            [example_withdrawal, second_withdrawal, third_withdrawal\<lparr>w_status := ''Paid''\<rparr>]\<rparr>)"
    by (simp add: defs)
  have cancelled: "settle Cancelled 0 ledger_store =
     Inr (ledger_store\<lparr>withdrawals :=
            [example_withdrawal\<lparr>w_status := ''Cancelled''\<rparr>, second_withdrawal,
             third_withdrawal]\<rparr>)"
    by (simp add: defs)
  have none: "settle Paid 2 ledger_store = Inl NotOffered"
    by (simp add: defs)
  have again: "settle Paid 1 (ledger_store\<lparr>withdrawals :=
            [example_withdrawal, second_withdrawal, third_withdrawal\<lparr>w_status := ''Paid''\<rparr>]\<rparr>)
     = Inl NotOffered"
    by (simp add: defs)
  have frame: "data (ledger_store\<lparr>withdrawals :=
            [example_withdrawal\<lparr>w_status := ''Cancelled''\<rparr>, second_withdrawal,
             third_withdrawal]\<rparr>) = data ledger_store"
    using settle_only_pending [OF d, of Cancelled 0
        "ledger_store\<lparr>withdrawals :=
            [example_withdrawal\<lparr>w_status := ''Cancelled''\<rparr>, second_withdrawal,
             third_withdrawal]\<rparr>"] cancelled
    by blast
  from d paid cancelled frame none again show ?thesis
    by (intro conjI)
qed

section \<open>The coadmin walk\<close>

lemma coadmin_walk_stops:
  "walk_stops n us cur \<Longrightarrow>
   coadmin_walk us cur = Some (nearest_coadmin (ancestors (Suc n) us cur))"
proof (induction n arbitrary: cur)
  case 0
  then show ?case
    by (subst coadmin_walk.simps) (auto simp: nearest_coadmin_def split: option.splits)
next
  case (Suc n)
  show ?case
  proof (cases "cur = ''ROOT''")
    case True
    then show ?thesis by (subst coadmin_walk.simps) (simp add: nearest_coadmin_def)
  next
    case False
    show ?thesis
    proof (cases "find_user_by_ref_id cur us")
      case None
      with False show ?thesis by (subst coadmin_walk.simps) (simp add: nearest_coadmin_def)
    next
      case (Some ku)
      obtain k u where ku: "ku = (k, u)" by (cases ku)
      show ?thesis
      proof (cases "role u = ''coadmin''")
        case True
        with False Some ku show ?thesis
          by (subst coadmin_walk.simps) (simp add: nearest_coadmin_def)
      next
        case nc: False
        with Suc.prems False Some ku have "walk_stops n us (ref_by u)" by simp
        from Suc.IH [OF this] False Some ku nc show ?thesis
          by (subst coadmin_walk.simps) (simp add: nearest_coadmin_def)
      qed
    qed
  qed
qed


text \<open>
  A directory whose \<open>ref_by\<close> pointers descend along a rank has no cycle, and every walk
  in it stops.
\<close>

lemma walk_stops_mono: "walk_stops m us cur \<Longrightarrow> m \<le> n \<Longrightarrow> walk_stops n us cur"
proof (induction n arbitrary: m cur)
  case 0
  then show ?case by simp
next
  case (Suc n)
  show ?case
  proof (cases m)
    case 0
    with Suc.prems show ?thesis by (auto split: option.splits)
  next
    case (Suc m')
    with Suc.prems Suc.IH [of m'] show ?thesis by (auto split: option.splits)
  qed
qed

lemma find_user_by_ref_id_Some:
  "find_user_by_ref_id r us = Some (k, u) \<Longrightarrow> (k, u) \<in> set us \<and> ref_id u = r"
  by (auto simp: find_user_by_ref_id_def scan_ref_id_def find_Some_iff in_set_conv_nth
      split: option.splits if_splits)

lemma ranked_walk_stops:
  assumes "\<And>k u. (k, u) \<in> set us \<Longrightarrow> ref_by u \<noteq> ''ROOT'' \<Longrightarrow> rank (ref_by u) < rank (ref_id u)"
  shows "walk_stops (Suc (rank cur)) us cur"
proof (induction "rank cur" arbitrary: cur rule: less_induct)
  case less
  show ?case
  proof (cases "find_user_by_ref_id cur us")
    case None
    then show ?thesis by simp
  next
    case (Some ku)
    obtain k u where ku: "ku = (k, u)" by (cases ku)
    from Some ku have mem: "(k, u) \<in> set us" and id: "ref_id u = cur"
      by (auto dest: find_user_by_ref_id_Some)
    show ?thesis
    proof (cases "ref_by u = ''ROOT''")
      case True
      then have "walk_stops (rank cur) us (ref_by u)" by (cases "rank cur") simp_all
      with Some ku show ?thesis by simp
    next
      case False
      with assms mem id have lt: "rank (ref_by u) < rank cur" by auto
      from less [OF lt] have w: "walk_stops (Suc (rank (ref_by u))) us (ref_by u)" .
      from lt have "Suc (rank (ref_by u)) \<le> rank cur" by simp
      with w have "walk_stops (rank cur) us (ref_by u)" by (rule walk_stops_mono)
      with Some ku show ?thesis by simp
    qed
  qed
qed







section \<open>Role of a new user\<close>

lemma map_entry_roles:
  "(\<And>u. role (f u) = role u) \<Longrightarrow>
   map (\<lambda>(k, u). (k, role u)) (AList.map_entry k f us) = map (\<lambda>(k, u). (k, role u)) us"
  by (induction us) auto

lemma affiliate_loop_roles:
  "map (\<lambda>(k, u). (k, role u)) (affiliate_loop ps us cur) = map (\<lambda>(k, u). (k, role u)) us"
proof (induction ps arbitrary: us cur)
  case Nil
  show ?case by simp
next
  case (Cons p ps)
  have c: "map (\<lambda>(k, u). (k, role u)) (credit_affiliate k p us)
           = map (\<lambda>(k, u). (k, role u)) us" for k
    unfolding credit_affiliate_def by (rule map_entry_roles) simp
  show ?case
    by (auto simp: Let_def c Cons.IH split: option.splits)
qed

lemma role_of_map: "map_option role (map_of us k) = map_of (map (\<lambda>(k, u). (k, role u)) us) k"
  by (simp add: map_of_map)

lemma determine_role_eq:
  "determine_role rf er us =
     (case er of None \<Rightarrow> default_role rf | Some r \<Rightarrow> if r = [] then default_role rf else r)"
  by (auto simp: determine_role_def default_role_def split: option.splits)

text \<open>
  C5, as stated, fails: \<open>register_user\<close> takes any non-empty explicit role as it comes
  and has no error for it. Registered under the member Mia with the explicit role
  \<open>admin\<close>, Eve becomes an admin.
\<close>

theorem explicit_role_unchecked:
  "\<not> isl (register_user ''Eve'' ''eve'' ''e1'' ''PRG1003'' (Some ''admin'') ''2025-01-08''
            example_data) \<and>
   snd (snd (projr (register_user ''Eve'' ''eve'' ''e1'' ''PRG1003'' (Some ''admin'')
            ''2025-01-08'' example_data))) = ''admin''"
  by (simp add: register_user_def Let_def example_defs determine_role_def setdefault_def)

text \<open>
  C5, amended. The role of a registered user is the explicit role when one is given
  and is not empty, whatever its value and whoever the caller; else \<open>coadmin\<close> when
  the referral id is \<open>PRG1001\<close>; else \<open>member\<close>. The explicit role never makes a
  registration fail: \<open>register_user\<close> is refused with it exactly when it is refused
  without it, with the same error.
\<close>

theorem register_user_role:
  "(register_user nm un pw rf er today d = Inr (d', rid, rl) \<longrightarrow>
      rl = (case er of None \<Rightarrow> default_role rf
            | Some r \<Rightarrow> if r = [] then default_role rf else r) \<and>
      map_option role (map_of (users d') un) = Some rl) \<and>
   (register_user nm un pw rf er today d = Inl e \<longleftrightarrow>
      register_user nm un pw rf None today d = Inl e)"
proof -
  have given: "register_user nm un pw rf er today d = Inr (d', rid, rl) \<longrightarrow>
      rl = (case er of None \<Rightarrow> default_role rf
            | Some r \<Rightarrow> if r = [] then default_role rf else r) \<and>
      map_option role (map_of (users d') un) = Some rl"
  proof
    assume r: "register_user nm un pw rf er today d = Inr (d', rid, rl)"
    let ?us1 = "AList.update un (new_user nm pw rid rf today rl) (users d)"
    from r have rl: "rl = determine_role rf er (users d)"
      and us: "users d' = (if rl = ''member'' then affiliate_loop level_payouts ?us1 rf else ?us1)"
      by (auto simp: register_user_def Let_def split: if_splits option.splits)
    have "map_option role (map_of (users d') un) = map_option role (map_of ?us1 un)"
      unfolding us role_of_map by (simp add: affiliate_loop_roles)
    then have "map_option role (map_of (users d') un) = Some rl"
      by (simp add: update_conv' new_user_def)
    with rl show "rl = (case er of None \<Rightarrow> default_role rf
            | Some r \<Rightarrow> if r = [] then default_role rf else r) \<and>
      map_option role (map_of (users d') un) = Some rl"
      by (simp add: determine_role_eq)
  qed
  have refused: "register_user nm un pw rf er today d = Inl e \<longleftrightarrow>
      register_user nm un pw rf None today d = Inl e"
    by (auto simp: register_user_def Let_def split: if_splits option.splits)
  from given refused show ?thesis by blast
qed

text \<open>Eve, registered under Mia with no explicit role, is a member.\<close>

theorem register_user_role_witness:
  "register_user ''Eve'' ''eve'' ''e1'' ''PRG1003'' None ''2025-01-08'' example_data
     = Inr (example_data_with_eve, ''PRG1005'', ''member'') \<and>
   default_role ''PRG1003'' = ''member'' \<and>
   map_option role (map_of (users example_data_with_eve) ''eve'') = Some ''member''"
  using register_user_role [of "''Eve''" "''eve''" "''e1''" "''PRG1003''" None "''2025-01-08''"
      example_data example_data_with_eve "''PRG1005''" "''member''"] register_eve
  by (simp add: default_role_def)

section \<open>Approval of proofs\<close>

lemma submit_proof_snapshot:
  "submit_proof un i now today ext ok s = Some (Inr s') \<Longrightarrow>
   \<exists>v'. map_of (proof_status s') (un @ ''_'' @ underscored (title (tasks s ! i)) @ ''_'' @ now)
            = Some v' \<and>
         task_payout v' = payout (tasks s ! i) \<and> status v' = ''Pending'' \<and>
         member_username v' = un \<and> \<not> approved_by_admin v'"
  by (auto simp: submit_proof_def Let_def update_conv' split: if_splits option.splits)

text \<open>
  C7. A submission that succeeds stores the payout of the task as \<open>task_payout\<close>, with
  status \<open>Pending\<close>. For a \<open>Pending\<close> submission of a member who is in the directory,
  approval by the assigned coadmin adds the stored \<open>task_payout\<close> to the member's task
  income, changes no other user and sets the status to \<open>Approved By Coadmin\<close>. The approval cannot be
  repeated, and a confirmation by the admin that follows sets \<open>approved_by_admin\<close> and the
  status \<open>Approved By Admin\<close> and leaves the directory, hence every income, as it is. No
  confirmation and no denial, in any state, changes the directory.
\<close>

theorem approval_credits_once:
  assumes v: "map_of (proof_status st) key = Some v"
    and p: "status v = ''Pending''" and c: "coadmin_username v = coadmin"
    and m: "map_of (users (data st)) (member_username v) = Some m"
  shows "(\<exists>st1. coadmin_approve coadmin key st = Inr st1 \<and>
           map_of (users (data st1)) (member_username v) =
             Some (m\<lparr>task_income := task_income m + task_payout v\<rparr>) \<and>
           (\<forall>k. k \<noteq> member_username v \<longrightarrow>
                map_of (users (data st1)) k = map_of (users (data st)) k) \<and>
           map_of (proof_status st1) key = Some (v\<lparr>status := ''Approved By Coadmin''\<rparr>) \<and>
           coadmin_approve c2 key st1 = Inl NotOffered \<and>
           (\<forall>st2. admin_confirm key st1 = Inr st2 \<longrightarrow>
                data st2 = data st1 \<and>
                map_of (proof_status st2) key =
                  Some (v\<lparr>status := ''Approved By Admin'', approved_by_admin := True\<rparr>) \<and>
                coadmin_approve c2 key st2 = Inl NotOffered)) \<and>
         (\<forall>s s' k. admin_confirm k s = Inr s' \<longrightarrow> data s' = data s) \<and>
         (\<forall>s s' k c. coadmin_deny c k s = Inr s' \<longrightarrow> data s' = data s) \<and>
         (\<forall>un i now today ext ok s s'.
            submit_proof un i now today ext ok s = Some (Inr s') \<longrightarrow>
            (\<exists>v'. map_of (proof_status s')
                    (un @ ''_'' @ underscored (title (tasks s ! i)) @ ''_'' @ now) = Some v' \<and>
                  task_payout v' = payout (tasks s ! i) \<and> status v' = ''Pending'' \<and>
                  member_username v' = un \<and> \<not> approved_by_admin v'))"
proof -
  let ?st1 = "st\<lparr>data := (data st)\<lparr>users :=
                 credit_task (member_username v) (task_payout v) (users (data st))\<rparr>,
               proof_status := set_status key ''Approved By Coadmin'' (proof_status st)\<rparr>"
  from m have "member_username v \<in> fst ` set (users (data st))"
    by (metis domI dom_map_of_conv_image_fst)
  with v p c have ap: "coadmin_approve coadmin key st = Inr ?st1"
    by (simp add: coadmin_approve_def pending_for_coadmin_def)
  have u1: "map_of (users (data ?st1)) (member_username v) =
             Some (m\<lparr>task_income := task_income m + task_payout v\<rparr>)"
    by (simp add: credit_task_def map_of_map_entry_same m)
  have u2: "\<forall>k. k \<noteq> member_username v \<longrightarrow>
                map_of (users (data ?st1)) k = map_of (users (data st)) k"
    by (simp add: credit_task_def map_of_map_entry_other)
  have s1: "map_of (proof_status ?st1) key = Some (v\<lparr>status := ''Approved By Coadmin''\<rparr>)"
    by (simp add: set_status_def map_of_map_entry_same v)
  have again: "coadmin_approve c2 key ?st1 = Inl NotOffered"
    using s1 by (simp add: coadmin_approve_def pending_for_coadmin_def)
  have conf: "\<forall>st2. admin_confirm key ?st1 = Inr st2 \<longrightarrow>
                data st2 = data ?st1 \<and>
                map_of (proof_status st2) key =
                  Some (v\<lparr>status := ''Approved By Admin'', approved_by_admin := True\<rparr>) \<and>
                coadmin_approve c2 key st2 = Inl NotOffered"
  proof (intro allI impI)
    fix st2 assume "admin_confirm key ?st1 = Inr st2"
    with s1 have st2: "st2 = ?st1\<lparr>proof_status :=
                 AList.map_entry key
                   (\<lambda>v. v\<lparr>approved_by_admin := True, status := ''Approved By Admin''\<rparr>)
                   (proof_status ?st1)\<rparr>"
      by (auto simp: admin_confirm_def split: if_splits)
    have s2: "map_of (proof_status st2) key =
                  Some (v\<lparr>status := ''Approved By Admin'', approved_by_admin := True\<rparr>)"
      unfolding st2 using s1 by (simp add: map_of_map_entry_same)
    then have "coadmin_approve c2 key st2 = Inl NotOffered"
      by (simp add: coadmin_approve_def pending_for_coadmin_def)
    with s2 show "data st2 = data ?st1 \<and>
                map_of (proof_status st2) key =
                  Some (v\<lparr>status := ''Approved By Admin'', approved_by_admin := True\<rparr>) \<and>
                coadmin_approve c2 key st2 = Inl NotOffered"
      by (simp add: st2)
  qed
  have confirm_frame: "\<forall>s s' k. admin_confirm k s = Inr s' \<longrightarrow> data s' = data s"
    by (auto simp: admin_confirm_def split: option.splits if_splits)
  have deny_frame: "\<forall>s s' k c. coadmin_deny c k s = Inr s' \<longrightarrow> data s' = data s"
    by (auto simp: coadmin_deny_def split: option.splits if_splits)
  have snapshot: "\<forall>un i now today ext ok s s'.
            submit_proof un i now today ext ok s = Some (Inr s') \<longrightarrow>
            (\<exists>v'. map_of (proof_status s')
                    (un @ ''_'' @ underscored (title (tasks s ! i)) @ ''_'' @ now) = Some v' \<and>
                  task_payout v' = payout (tasks s ! i) \<and> status v' = ''Pending'' \<and>
                  member_username v' = un \<and> \<not> approved_by_admin v')"
    using submit_proof_snapshot by blast
  from ap u1 u2 s1 again conf confirm_frame deny_frame snapshot show ?thesis by blast
qed

text \<open>
  Carol approves Mia's pending proof of payout 100: Mia's task income goes from 30 to
  130, and the admin's confirmation that follows leaves the directory as it is.
\<close>

theorem approval_credits_once_witness:
  "map_of (proof_status example_store) ''mia_Survey_one_20250105090000'' = Some example_proof \<and>
   status example_proof = ''Pending'' \<and> coadmin_username example_proof = ''carol'' \<and>
   map_of (users (data example_store)) (member_username example_proof) = Some mia_user \<and>
   (\<exists>st1. coadmin_approve ''carol'' ''mia_Survey_one_20250105090000'' example_store = Inr st1 \<and>
      map_of (users (data st1)) ''mia'' = Some (mia_user\<lparr>task_income := 130\<rparr>) \<and>
      (\<exists>st2. admin_confirm ''mia_Survey_one_20250105090000'' st1 = Inr st2 \<and>
         data st2 = data st1)) \<and>
   (\<exists>s' v'. submit_proof ''noor'' 0 ''20250107080000'' ''2025-01-07'' ''.png'' True example_store
             = Some (Inr s') \<and>
      map_of (proof_status s') ''noor_Survey_one_20250107080000'' = Some v' \<and>
      task_payout v' = 100)"
proof -
  let ?key = "''mia_Survey_one_20250105090000''"
  have v: "map_of (proof_status example_store) ?key = Some example_proof"
    by (simp add: example_store_def)
  have p: "status example_proof = ''Pending''" and c: "coadmin_username example_proof = ''carol''"
    by (simp_all add: example_proof_def)
  have m: "map_of (users (data example_store)) (member_username example_proof) = Some mia_user"
    by (simp add: example_store_def example_data_def example_proof_def)
  from approval_credits_once [OF v p c m, of "''carol''"]
  obtain st1 where ap: "coadmin_approve ''carol'' ?key example_store = Inr st1"
    and inc: "map_of (users (data st1)) (member_username example_proof) =
                Some (mia_user\<lparr>task_income := task_income mia_user + task_payout example_proof\<rparr>)"
    and s1: "map_of (proof_status st1) ?key = Some (example_proof\<lparr>status := ''Approved By Coadmin''\<rparr>)"
    and fr: "\<forall>s s' k. admin_confirm k s = Inr s' \<longrightarrow> data s' = data s"
    and sn: "\<forall>un i now today ext ok s s'.
            submit_proof un i now today ext ok s = Some (Inr s') \<longrightarrow>
            (\<exists>v'. map_of (proof_status s')
                    (un @ ''_'' @ underscored (title (tasks s ! i)) @ ''_'' @ now) = Some v' \<and>
                  task_payout v' = payout (tasks s ! i) \<and> status v' = ''Pending'' \<and>
                  member_username v' = un \<and> \<not> approved_by_admin v')"
    by blast
  have "walk_stops 1 (users example_data) ''PRG1003''"
    by (simp add: example_defs find_user_by_ref_id_def scan_ref_id_def)
  then have "\<exists>r. coadmin_walk (users example_data) ''PRG1003'' = Some r"
    by (blast dest: coadmin_walk_stops)
  then obtain s' where sub: "submit_proof ''noor'' 0 ''20250107080000'' ''2025-01-07'' ''.png''
      True example_store = Some (Inr s')"
    by (auto simp: submit_proof_def Let_def proof_exists_for_task_def find_coadmin_for_member_def
        example_defs)
  from sn sub obtain v' where
    "map_of (proof_status s')
       (''noor'' @ ''_'' @ underscored (title (tasks example_store ! 0)) @ ''_'' @ ''20250107080000'')
       = Some v'"
    and "task_payout v' = payout (tasks example_store ! 0)"
    by blast
  then have "map_of (proof_status s') ''noor_Survey_one_20250107080000'' = Some v'"
    and "task_payout v' = 100"
    by (simp_all add: example_store_def underscored_def)
  with sub have submitted: "\<exists>s' v'. submit_proof ''noor'' 0 ''20250107080000'' ''2025-01-07''
      ''.png'' True example_store = Some (Inr s') \<and>
      map_of (proof_status s') ''noor_Survey_one_20250107080000'' = Some v' \<and>
      task_payout v' = 100"
    by blast
  from s1 obtain st2 where cf: "admin_confirm ?key st1 = Inr st2"
    by (simp add: admin_confirm_def example_proof_def)
  with fr have "data st2 = data st1" by blast
  with cf have "\<exists>st2. admin_confirm ?key st1 = Inr st2 \<and> data st2 = data st1" by blast
  moreover from inc have "map_of (users (data st1)) ''mia'' = Some (mia_user\<lparr>task_income := 130\<rparr>)"
    by (simp add: example_proof_def mia_user_def)
  ultimately show ?thesis using v p c m ap submitted by blast
qed

section \<open>Affiliate income\<close>
















section \<open>The registration counter and the invariants of the directory\<close>

text \<open>
  The pages that touch only incomes, withdrawal requests and proof records keep the
  invariants of the directory.
\<close>

lemma set_map_entry_links:
  assumes "\<And>u. ref_id (f u) = ref_id u \<and> ref_by (f u) = ref_by u \<and> role (f u) = role u"
  shows "map (\<lambda>(k, u). (k, ref_id u, ref_by u, role u)) (AList.map_entry k f us)
         = map (\<lambda>(k, u). (k, ref_id u, ref_by u, role u)) us"
  using assms by (induction us) auto

lemma inv_by_links:
  "inv_ref_by_resolves d \<longleftrightarrow>
     (\<forall>(k, i, b, r) \<in> set (links (users d)). r \<noteq> ''admin'' \<longrightarrow>
        b \<in> (\<lambda>(k, i, b, r). i) ` set (links (users d)))"
  "inv_ref_id_keys d \<longleftrightarrow>
     (\<forall>(k, i, b, r) \<in> set (links (users d)). i \<in> fst ` set (referrals d))"
  "inv_child_once d \<longleftrightarrow>
     (\<forall>(k, i, b, r) \<in> set (links (users d)). r \<noteq> ''admin'' \<longrightarrow>
        (case map_of (referrals d) b of None \<Rightarrow> False | Some ch \<Rightarrow> count_list ch i = 1))"
  "inv_rooted d \<longleftrightarrow>
     (case map_of (links (users d)) ''admin'' of
        None \<Rightarrow> False
      | Some (i, b, r) \<Rightarrow>
          (\<forall>r \<in> fst ` set (referrals d).
             r = i \<or> r \<in> set (descendants (length (referrals d)) (referrals d) i)))"
  unfolding inv_defs links_def
     apply (force simp: image_iff)
    apply force
   apply force
  apply (simp add: map_of_map split: option.splits)
  done

lemma directory_inv_links:
  "links (users d') = links (users d) \<Longrightarrow> referrals d' = referrals d \<Longrightarrow>
   directory_inv d' = directory_inv d"
  by (simp add: directory_inv_def inv_by_links inv_acyclic_def cong: option.case_cong)

lemma links_map_entry:
  "(\<And>u. ref_id (f u) = ref_id u \<and> ref_by (f u) = ref_by u \<and> role (f u) = role u) \<Longrightarrow>
   links (AList.map_entry k f us) = links us"
  unfolding links_def by (rule set_map_entry_links)

lemma income_pages_preserve_invariants:
  assumes "directory_inv (data st)"
  shows "(coadmin_approve c key st = Inr st' \<longrightarrow> directory_inv (data st')) \<and>
         (coadmin_deny c key st = Inr st' \<longrightarrow> directory_inv (data st')) \<and>
         (admin_confirm key st = Inr st' \<longrightarrow> directory_inv (data st')) \<and>
         (request_withdrawal un nm u now today st = Inr st' \<longrightarrow> directory_inv (data st')) \<and>
         (settle out i st = Inr st' \<longrightarrow> directory_inv (data st')) \<and>
         (submit_proof un i now today ext ok st = Some (Inr st') \<longrightarrow> directory_inv (data st'))"
proof -
  have a: "coadmin_approve c key st = Inr st' \<longrightarrow> directory_inv (data st')"
    using assms
    by (auto simp: coadmin_approve_def credit_task_def links_map_entry
        directory_inv_links [of "(data st)\<lparr>users := AList.map_entry k f (users (data st))\<rparr>" "data st" for k f]
        split: option.splits if_splits)
  have b: "coadmin_deny c key st = Inr st' \<longrightarrow> directory_inv (data st')"
    using assms by (auto simp: coadmin_deny_def split: option.splits if_splits)
  have cc: "admin_confirm key st = Inr st' \<longrightarrow> directory_inv (data st')"
    using assms by (auto simp: admin_confirm_def split: option.splits if_splits)
  have d: "request_withdrawal un nm u now today st = Inr st' \<longrightarrow> directory_inv (data st')"
    using assms
    by (auto simp: request_withdrawal_def Let_def links_map_entry
        directory_inv_links [of "(data st)\<lparr>users := AList.map_entry k f (users (data st))\<rparr>" "data st" for k f]
        split: option.splits if_splits)
  have e: "settle out i st = Inr st' \<longrightarrow> directory_inv (data st')"
    using assms by (auto simp: settle_def Let_def split: if_splits)
  have f: "submit_proof un i now today ext ok st = Some (Inr st') \<longrightarrow> directory_inv (data st')"
    using assms by (auto simp: submit_proof_def Let_def split: if_splits option.splits)
  from a b cc d e f show ?thesis by blast
qed

text \<open>
  C1 fails on the program. The initial directory has \<open>count = 1\<close> and an admin whose
  ref_id is \<open>PRG1001\<close>, and \<open>register_user\<close> computes the new ref_id from the counter
  before it increments it: the first user to register gets \<open>PRG1001\<close> again.
\<close>

theorem first_registration_reissues_admin_ref_id:
  "register_user ''Carol'' ''carol'' ''c1'' ''PRG1001'' None ''2025-01-02''
     (initial_data ''2025-01-01'') = Inr (first_registration_data, ''PRG1001'', ''coadmin'') \<and>
   map_option ref_id (map_of (users (initial_data ''2025-01-01'')) ''admin'') = Some ''PRG1001'' \<and>
   map_option ref_id (map_of (users first_registration_data) ''admin'') = Some ''PRG1001'' \<and>
   map_option ref_id (map_of (users first_registration_data) ''carol'') = Some ''PRG1001''"
  using first_registration
  by (simp add: initial_data_def first_registration_data_def admin_user_def)

text \<open>
  C2 fails on the program. The initial directory satisfies the invariants; after the
  first registration the admin's ref_id is its own child. The example directory
  satisfies them; after Carol has deleted Mia, Noor's \<open>ref_by\<close> is the ref_id of nobody,
  its parent entry is gone and its key is cut off from the root.
\<close>

theorem operations_break_invariants:
  "directory_inv (initial_data ''2025-01-01'') \<and>
   register_user ''Carol'' ''carol'' ''c1'' ''PRG1001'' None ''2025-01-02''
     (initial_data ''2025-01-01'') = Inr (first_registration_data, ''PRG1001'', ''coadmin'') \<and>
   \<not> directory_inv first_registration_data \<and>
   directory_inv example_data \<and>
   delete_member ''PRG1002'' ''mia'' example_data = Inr example_data_without_mia \<and>
   \<not> directory_inv example_data_without_mia"
proof -
  have i0: "directory_inv (initial_data ''2025-01-01'')"
    by (simp add: inv_defs initial_data_def)
  have i1: "\<not> inv_acyclic first_registration_data"
    by (simp add: inv_acyclic_def first_registration_data_def)
  have e0: "directory_inv example_data"
    by (simp add: inv_defs example_defs)
  have del: "delete_member ''PRG1002'' ''mia'' example_data = Inr example_data_without_mia"
    by (simp add: delete_member_def Let_def example_defs example_data_without_mia_def
        AList.delete_eq)
  have e1: "\<not> inv_ref_by_resolves example_data_without_mia"
    by (simp add: inv_ref_by_resolves_def example_data_without_mia_def example_defs)
  from i0 first_registration i1 e0 del e1 show ?thesis
    by (simp add: directory_inv_def)
qed

text \<open>The invariants hold before each of the two operations and fail after it.\<close>

theorem operations_break_invariants_witness:
  "directory_inv (initial_data ''2025-01-01'') \<and> \<not> directory_inv first_registration_data \<and>
   directory_inv example_data \<and> \<not> directory_inv example_data_without_mia"
  using operations_break_invariants by simp

end
